theory Spec2Isabelle
  imports Main "HOL-Library.Word"
begin

section \<open>JavaScript values and strings\<close>

text \<open>
  The bridge is TypeScript; at run time its types are erased, so tool arguments, parsed
  JSON files and response bodies are arbitrary JavaScript values. A string is the list of
  its 16-bit code units, as in the language: a character outside the basic plane is a
  high surrogate followed by a low surrogate, and a surrogate can also stand alone. A
  number is modelled as an integer (pull-request ids, line numbers and the version stamp
  are integers). An object is the list of its own properties in textual order; where a
  key occurs twice the last occurrence wins, as in \<open>JSON.parse\<close> and in an object
  literal.
\<close>

type_synonym jsstring = "16 word list"

text \<open>
  The string literals of the source hold characters below 256 only: \<open>cu c\<close> is the code
  unit of such a character and \<open>js s\<close> the string of a literal.
\<close>

definition cu :: "char \<Rightarrow> 16 word" where
  "cu c = of_char c"

definition js :: "string \<Rightarrow> jsstring" where
  "js s = map cu s"

datatype jsval =
    JUndefined
  | JNull
  | JBool bool
  | JNum int
  | JStr jsstring
  | JArr "jsval list"
  | JObj "(jsstring \<times> jsval) list"

text \<open>Truthiness, as tested by \<open>if (v)\<close>, \<open>!v\<close>, \<open>a && b\<close> and \<open>a || b\<close>.\<close>

fun truthy :: "jsval \<Rightarrow> bool" where
  "truthy JUndefined = False"
| "truthy JNull = False"
| "truthy (JBool b) = b"
| "truthy (JNum n) = (n \<noteq> 0)"
| "truthy (JStr s) = (s \<noteq> [])"
| "truthy (JArr xs) = True"
| "truthy (JObj kvs) = True"

definition nullish :: "jsval \<Rightarrow> bool" where
  "nullish v = (v = JUndefined \<or> v = JNull)"

text \<open>
  Property read \<open>v.k\<close> on a value that is neither \<open>undefined\<close> nor \<open>null\<close> (the
  callers below test that first, where the source can raise a TypeError). Only own
  properties and \<open>length\<close> are values of the model.
\<close>

fun member :: "jsval \<Rightarrow> jsstring \<Rightarrow> jsval" where
  "member (JObj kvs) k = (case map_of (rev kvs) k of Some v \<Rightarrow> v | None \<Rightarrow> JUndefined)"
| "member (JStr s) k = (if k = js ''length'' then JNum (int (length s)) else JUndefined)"
| "member (JArr xs) k = (if k = js ''length'' then JNum (int (length xs)) else JUndefined)"
| "member v k = JUndefined"

text \<open>Optional chaining \<open>v?.k\<close>.\<close>

definition optMember :: "jsval \<Rightarrow> jsstring \<Rightarrow> jsval" where
  "optMember v k = (if nullish v then JUndefined else member v k)"

text \<open>\<open>a || b\<close> on values.\<close>

definition orElse :: "jsval \<Rightarrow> jsval \<Rightarrow> jsval" where
  "orElse a b = (if truthy a then a else b)"

subsection \<open>Conversion to string\<close>

text \<open>The decimal digits of an integer, as characters.\<close>

definition digitChar :: "nat \<Rightarrow> char" where
  "digitChar d = ''0123456789'' ! d"

function showNat :: "nat \<Rightarrow> string" where
  "showNat n = (if n < 10 then [digitChar n] else showNat (n div 10) @ [digitChar (n mod 10)])"
  by pat_completeness auto
termination
  by (relation "measure id") auto

declare showNat.simps [simp del]

definition showInt :: "int \<Rightarrow> string" where
  "showInt i = (if i < 0 then CHR ''-'' # showNat (nat (- i)) else showNat (nat i))"

text \<open>\<open>Array.prototype.join\<close> on strings.\<close>

fun joinWith :: "jsstring \<Rightarrow> jsstring list \<Rightarrow> jsstring" where
  "joinWith sep [] = []"
| "joinWith sep [x] = x"
| "joinWith sep (x # y # ys) = x @ sep @ joinWith sep (y # ys)"

text \<open>
  \<open>String(v)\<close> and the conversion a template literal applies. Inside \<open>join\<close>, an
  \<open>undefined\<close> or \<open>null\<close> element is the empty string. The digits of a number are
  those the language prints for an integer below \<open>10^21\<close> in absolute value, and
  the text of an object is the one of an object without a \<open>toString\<close> property of its
  own.
\<close>

fun toStr :: "jsval \<Rightarrow> jsstring" where
  "toStr JUndefined = js ''undefined''"
| "toStr JNull = js ''null''"
| "toStr (JBool b) = (if b then js ''true'' else js ''false'')"
| "toStr (JNum n) = js (showInt n)"
| "toStr (JStr s) = s"
| "toStr (JArr xs) =
     joinWith (js '','') (map (\<lambda>x. if x = JUndefined \<or> x = JNull then [] else toStr x) xs)"
| "toStr (JObj kvs) = js ''[object Object]''"

definition joinElem :: "jsval \<Rightarrow> jsstring" where
  "joinElem x = (if nullish x then [] else toStr x)"

subsection \<open>String primitives\<close>

fun startsWith :: "jsstring \<Rightarrow> jsstring \<Rightarrow> bool" where
  "startsWith s [] = True"
| "startsWith [] (p # ps) = False"
| "startsWith (c # cs) (p # ps) = (c = p \<and> startsWith cs ps)"

text \<open>\<open>s.includes(sub)\<close>: \<open>sub\<close> occurs in \<open>s\<close> as a contiguous substring.\<close>

fun includesStr :: "jsstring \<Rightarrow> jsstring \<Rightarrow> bool" where
  "includesStr [] sub = (sub = [])"
| "includesStr (c # cs) sub = (startsWith (c # cs) sub \<or> includesStr cs sub)"



section \<open>The repository client\<close>

subsection \<open>Errors and effects\<close>

datatype authType = Basic | Bearer

text \<open>
  \<open>BitbucketError\<close>. The source's \<open>errorType\<close> is a string; \<open>statusCode\<close> and
  \<open>suggestion\<close> may be \<open>undefined\<close>.
\<close>

record bitbucketError =
  message :: jsstring
  statusCode :: "nat option"
  errorType :: jsstring
  details :: jsval
  suggestion :: "jsstring option"
  isRetryable :: bool

text \<open>
  What a call can raise: a \<open>BitbucketError\<close>, or another \<open>Error\<close> with its name
  (\<open>Error\<close>, \<open>TypeError\<close>) and message.
\<close>

datatype thrown = BitbucketErr bitbucketError | JsError jsstring jsstring

datatype httpMethod = GET | POST | PUT | DELETE

fun methodName :: "httpMethod \<Rightarrow> jsstring" where
  "methodName GET = js ''GET''"
| "methodName POST = js ''POST''"
| "methodName PUT = js ''PUT''"
| "methodName DELETE = js ''DELETE''"

text \<open>
  One request handed to the axios instance: the instance's \<open>baseURL\<close>, the method, the
  \<open>url\<close> (a path below the base URL) and the \<open>data\<close>. The source always builds the data
  with \<open>JSON.stringify(body)\<close>; \<open>reqBody = Some v\<close> stands for the JSON text of \<open>v\<close>,
  \<open>None\<close> for no data. The instance's headers are fixed at construction and no operation
  below passes headers of its own.
\<close>

record httpRequest =
  reqBaseURL :: jsstring
  reqMethod :: httpMethod
  reqPath :: jsstring
  reqBody :: "jsval option"

text \<open>A network call is an axios request or a \<open>fetch\<close> of an absolute URL.\<close>

datatype netCall = AxiosCall httpRequest | FetchCall jsstring

text \<open>
  The rejection axios raises, as the \<open>catch\<close> block of \<open>request\<close> reads it:
  \<open>error.response?.status\<close>, \<open>error.response?.data\<close>, \<open>error.code\<close>, \<open>error.message\<close>.
\<close>

record axiosError =
  responseStatus :: "nat option"
  responseData :: jsval
  errorCode :: "jsstring option"
  errorMessage :: jsstring

datatype axiosOutcome = Resolved jsval | Rejected axiosError

text \<open>
  \<open>fetch\<close> resolves with a status and a body (\<open>None\<close>: reading the body fails), or
  rejects.
\<close>

datatype fetchOutcome = FetchResponse nat "jsstring option" | FetchFailed jsstring

text \<open>The remote side: what each call is answered with.\<close>

record remote =
  axiosRequest :: "httpRequest \<Rightarrow> axiosOutcome"
  fetchUrl :: "jsstring \<Rightarrow> fetchOutcome"

text \<open>
  An operation yields the network calls it issued, in order, and either the raised value
  or the result.
\<close>

type_synonym 'a effect = "netCall list \<times> (thrown + 'a)"

subsection \<open>encodeURIComponent\<close>

text \<open>
  The built-in walks the code units of the string. An unreserved character is kept.
  Anything else is read as a code point, a high surrogate together with the low
  surrogate that follows it, and written as the percent-escaped bytes of the UTF-8
  encoding of that code point, in upper-case hexadecimal. A surrogate without its partner
  raises a \<open>URIError\<close>.
\<close>

definition uriUnreserved :: "16 word \<Rightarrow> bool" where
  "uriUnreserved c =
     (c \<in> set (js ''ABCDEFGHIJKLMNOPQRSTUVWXYZabcdefghijklmnopqrstuvwxyz0123456789-_.!~*'') \<or>
      c = cu (CHR 0x27) \<or> c = cu CHR ''('' \<or> c = cu CHR '')'')"

definition highSurrogate :: "16 word \<Rightarrow> bool" where
  "highSurrogate c = (0xD800 \<le> unat c \<and> unat c \<le> 0xDBFF)"

definition lowSurrogate :: "16 word \<Rightarrow> bool" where
  "lowSurrogate c = (0xDC00 \<le> unat c \<and> unat c \<le> 0xDFFF)"

text \<open>The code point of a surrogate pair.\<close>

definition pairCodePoint :: "16 word \<Rightarrow> 16 word \<Rightarrow> nat" where
  "pairCodePoint lead trail = (unat lead - 0xD800) * 0x400 + (unat trail - 0xDC00) + 0x10000"

text \<open>The bytes of the UTF-8 encoding of a code point.\<close>

definition utf8 :: "nat \<Rightarrow> nat list" where
  "utf8 cp =
     (if cp < 0x80 then [cp]
      else if cp < 0x800 then [0xC0 + cp div 0x40, 0x80 + cp mod 0x40]
      else if cp < 0x10000 then
        [0xE0 + cp div 0x1000, 0x80 + cp div 0x40 mod 0x40, 0x80 + cp mod 0x40]
      else
        [0xF0 + cp div 0x40000, 0x80 + cp div 0x1000 mod 0x40, 0x80 + cp div 0x40 mod 0x40,
         0x80 + cp mod 0x40])"

definition hexDigit :: "nat \<Rightarrow> char" where
  "hexDigit d = ''0123456789ABCDEF'' ! d"

definition pctByte :: "nat \<Rightarrow> jsstring" where
  "pctByte b = js [CHR ''%'', hexDigit (b div 16), hexDigit (b mod 16)]"

definition pctEncoded :: "nat \<Rightarrow> jsstring" where
  "pctEncoded cp = concat (map pctByte (utf8 cp))"

definition uriMalformed :: thrown where
  "uriMalformed = JsError (js ''URIError'') (js ''URI malformed'')"

fun encodeURIComponent :: "jsstring \<Rightarrow> thrown + jsstring" where
  "encodeURIComponent [] = Inr []"
| "encodeURIComponent (c # cs) =
     (if uriUnreserved c then
        (case encodeURIComponent cs of Inl e \<Rightarrow> Inl e | Inr r \<Rightarrow> Inr (c # r))
      else if lowSurrogate c then Inl uriMalformed
      else if highSurrogate c then
        (case cs of
           [] \<Rightarrow> Inl uriMalformed
         | d # ds \<Rightarrow>
             if lowSurrogate d then
               (case encodeURIComponent ds of
                  Inl e \<Rightarrow> Inl e
                | Inr r \<Rightarrow> Inr (pctEncoded (pairCodePoint c d) @ r))
             else Inl uriMalformed)
      else
        (case encodeURIComponent cs of
           Inl e \<Rightarrow> Inl e
         | Inr r \<Rightarrow> Inr (pctEncoded (unat c) @ r)))"

text \<open>
  A path segment inside a template literal: \<open>encodeURIComponent(s)\<close> is evaluated, and
  what it raises leaves the operation before any request is issued; otherwise the
  evaluation goes on with the encoded segment.
\<close>

definition encoded :: "jsstring \<Rightarrow> (jsstring \<Rightarrow> 'a effect) \<Rightarrow> 'a effect" where
  "encoded s k = (case encodeURIComponent s of Inl e \<Rightarrow> ([], Inl e) | Inr t \<Rightarrow> k t)"

subsection \<open>Construction\<close>

definition cloudBaseUrl :: jsstring where
  "cloudBaseUrl = js ''https://api.bitbucket.org/2.0''"

definition cloudMarker :: jsstring where
  "cloudMarker = js ''api.bitbucket.org''"

record clientOptions =
  optEmail :: jsstring
  optToken :: jsstring
  optBaseUrl :: "jsstring option"
  optAuthType :: "authType option"

record client =
  email :: jsstring
  token :: jsstring
  clientBaseUrl :: jsstring
  clientAuthType :: authType
  isCloud :: bool

definition BitbucketClient :: "clientOptions \<Rightarrow> client" where
  "BitbucketClient opts =
     (let b = (case optBaseUrl opts of
                 None \<Rightarrow> cloudBaseUrl
               | Some u \<Rightarrow> if u = [] then cloudBaseUrl else u);
          a = (case optAuthType opts of
                 Some t \<Rightarrow> t
               | None \<Rightarrow> if includesStr b cloudMarker then Basic else Bearer)
      in \<lparr> email = optEmail opts, token = optToken opts, clientBaseUrl = b,
           clientAuthType = a,
           isCloud = (includesStr b cloudMarker \<or> b = cloudBaseUrl) \<rparr>)"

subsection \<open>The shared request routine\<close>

definition errorDetails :: "jsstring \<Rightarrow> httpMethod \<Rightarrow> jsval \<Rightarrow> jsval" where
  "errorDetails path m resp =
     JObj [(js ''path'', JStr path), (js ''method'', JStr (methodName m)), (js ''response'', resp)]"

text \<open>The \<open>catch\<close> block of \<open>request\<close>: the status-code table, in the source's order.\<close>

definition requestError :: "jsstring \<Rightarrow> httpMethod \<Rightarrow> axiosError \<Rightarrow> bitbucketError" where
  "requestError path m e =
     (let status = responseStatus e; responseData = responseData e in
      if status = Some 401 then
        \<lparr> message = js ''Authentication failed'', statusCode = Some 401,
          errorType = js ''AUTHENTICATION_ERROR'',
          details = errorDetails path m responseData,
          suggestion = Some (js ''Check your email and app password/token. Ensure credentials are valid and have not expired.''),
          isRetryable = False \<rparr>
      else if status = Some 403 then
        \<lparr> message = js ''Permission denied'', statusCode = Some 403,
          errorType = js ''PERMISSION_ERROR'',
          details = errorDetails path m responseData,
          suggestion = Some (js ''Your credentials lack permission for this operation. Check repository access rights and workspace permissions.''),
          isRetryable = False \<rparr>
      else if status = Some 404 then
        \<lparr> message = js ''Resource not found'', statusCode = Some 404,
          errorType = js ''NOT_FOUND_ERROR'',
          details = errorDetails path m responseData,
          suggestion = Some (js ''Verify workspace name, repository slug, or resource ID. Check if the resource exists and is accessible.''),
          isRetryable = False \<rparr>
      else if status = Some 400 then
        \<lparr> message = js ''Bad request'', statusCode = Some 400,
          errorType = js ''VALIDATION_ERROR'',
          details = errorDetails path m responseData,
          suggestion = Some (js ''Invalid request parameters. '' @
            toStr (orElse (optMember (optMember responseData (js ''error'')) (js ''message''))
                     (JStr (js ''Check the request payload and parameters.'')))),
          isRetryable = False \<rparr>
      else if status = Some 409 then
        \<lparr> message = js ''Conflict'', statusCode = Some 409,
          errorType = js ''CONFLICT_ERROR'',
          details = errorDetails path m responseData,
          suggestion = Some (js ''Resource already exists or conflicts with existing data. Try a different name or check for duplicates.''),
          isRetryable = False \<rparr>
      else if status = Some 429 then
        \<lparr> message = js ''Rate limit exceeded'', statusCode = Some 429,
          errorType = js ''RATE_LIMIT_ERROR'',
          details = errorDetails path m responseData,
          suggestion = Some (js ''Too many requests. Wait before retrying. Check rate limit headers for reset time.''),
          isRetryable = True \<rparr>
      else if (case status of Some st \<Rightarrow> st \<noteq> 0 \<and> st \<ge> 500 | None \<Rightarrow> False) then
        \<lparr> message = js ''Bitbucket server error'', statusCode = status,
          errorType = js ''SERVER_ERROR'',
          details = errorDetails path m responseData,
          suggestion = Some (js ''Bitbucket service is experiencing issues. Retry after a short delay.''),
          isRetryable = True \<rparr>
      else if errorCode e = Some (js ''ENOTFOUND'') \<or> errorCode e = Some (js ''ECONNREFUSED'') then
        \<lparr> message = js ''Network connection failed'', statusCode = None,
          errorType = js ''NETWORK_ERROR'',
          details = JObj [(js ''path'', JStr path), (js ''method'', JStr (methodName m)),
                          (js ''code'', (case errorCode e of Some c \<Rightarrow> JStr c | None \<Rightarrow> JUndefined))],
          suggestion = Some (js ''Check network connectivity and baseUrl configuration. Verify the Bitbucket server is reachable.''),
          isRetryable = True \<rparr>
      else if errorCode e = Some (js ''ETIMEDOUT'') then
        \<lparr> message = js ''Request timeout'', statusCode = None,
          errorType = js ''TIMEOUT_ERROR'',
          details = JObj [(js ''path'', JStr path), (js ''method'', JStr (methodName m))],
          suggestion = Some (js ''Request took too long. Check network speed or try again.''),
          isRetryable = True \<rparr>
      else
        \<lparr> message = (if errorMessage e = [] then js ''Unknown error occurred'' else errorMessage e),
          statusCode = status,
          errorType = js ''UNKNOWN_ERROR'',
          details = JObj [(js ''path'', JStr path), (js ''method'', JStr (methodName m)),
                          (js ''response'', responseData),
                          (js ''originalError'', (case errorCode e of Some c \<Rightarrow> JStr c | None \<Rightarrow> JUndefined))],
          suggestion = Some (js ''An unexpected error occurred. Check logs for details.''),
          isRetryable = False \<rparr>)"

text \<open>
  \<open>request(path, init)\<close>: the method defaults to \<open>GET\<close>; exactly one axios request is
  issued; its data is returned, or its rejection is translated and raised.
\<close>

definition request ::
  "client \<Rightarrow> remote \<Rightarrow> jsstring \<Rightarrow> httpMethod option \<Rightarrow> jsval option \<Rightarrow> jsval effect" where
  "request c env path initMethod initBody =
     (let m = (case initMethod of None \<Rightarrow> GET | Some x \<Rightarrow> x);
          req = \<lparr> reqBaseURL = clientBaseUrl c, reqMethod = m, reqPath = path,
                  reqBody = initBody \<rparr>
      in ([AxiosCall req],
          (case axiosRequest env req of
             Resolved d \<Rightarrow> Inr d
           | Rejected e \<Rightarrow> Inl (BitbucketErr (requestError path m e)))))"

subsection \<open>Operations\<close>

text \<open>
  The operations log their arguments first. Logging has no effect on the result and is
  left out, except where evaluating the logged expression can raise.
\<close>

definition getRepo :: "client \<Rightarrow> remote \<Rightarrow> jsstring \<Rightarrow> jsstring \<Rightarrow> jsval effect" where
  "getRepo c env workspace repoSlug =
     (if isCloud c
      then encoded workspace (\<lambda>w. encoded repoSlug (\<lambda>r.
             request c env (js ''/repositories/'' @ w @ js ''/'' @ r) None None))
      else encoded workspace (\<lambda>w. encoded repoSlug (\<lambda>r.
             request c env (js ''/projects/'' @ w @ js ''/repos/'' @ r) None None)))"

text \<open>
  \<open>addPullRequestComment\<close>. The handler passes \<open>args.prId\<close> and \<open>args.text\<close> as they
  are, so both are arbitrary values here. The log line reads \<open>text.length\<close>, which raises
  a TypeError when \<open>text\<close> is \<open>undefined\<close> or \<open>null\<close>.
\<close>

definition addPullRequestComment ::
  "client \<Rightarrow> remote \<Rightarrow> jsstring \<Rightarrow> jsstring \<Rightarrow> jsval \<Rightarrow> jsval \<Rightarrow> jsval effect" where
  "addPullRequestComment c env workspace repoSlug prId txt =
     (if nullish txt then
        ([], Inl (JsError (js ''TypeError'')
                    (js ''Cannot read properties of '' @ toStr txt @ js '' (reading '' @
                     [cu CHR 0x27] @ js ''length'' @ [cu CHR 0x27] @ js '')'')))
      else
        (let body = (if isCloud c then JObj [(js ''content'', JObj [(js ''raw'', txt)])]
                     else JObj [(js ''text'', txt)])
         in encoded workspace (\<lambda>w. encoded repoSlug (\<lambda>r.
              (let path = (if isCloud c
                           then js ''/repositories/'' @ w @ js ''/'' @ r @
                                js ''/pullrequests/'' @ toStr prId @ js ''/comments''
                           else js ''/projects/'' @ w @ js ''/repos/'' @ r @
                                js ''/pull-requests/'' @ toStr prId @ js ''/comments'')
               in request c env path (Some POST) (Some body))))))"

text \<open>
  The error the Cloud branch of \<open>getFileContent\<close> raises for a response that is not
  \<open>ok\<close>; \<open>errorText\<close> is the body, or a fixed text when the body cannot be read.
\<close>

definition fileErrorDetails ::
  "jsstring \<Rightarrow> jsstring \<Rightarrow> jsstring \<Rightarrow> jsstring \<Rightarrow> (jsstring \<times> jsval) list" where
  "fileErrorDetails workspace repoSlug filePath commitHash =
     [(js ''workspace'', JStr workspace), (js ''repoSlug'', JStr repoSlug),
      (js ''filePath'', JStr filePath), (js ''commitHash'', JStr commitHash)]"

definition fileFetchError ::
  "jsstring \<Rightarrow> jsstring \<Rightarrow> jsstring \<Rightarrow> jsstring \<Rightarrow> nat \<Rightarrow> jsstring option \<Rightarrow> bitbucketError" where
  "fileFetchError workspace repoSlug filePath commitHash status body =
     (let errorText = (case body of None \<Rightarrow> js ''Unable to read error response'' | Some t \<Rightarrow> t) in
      if status = 404 then
        \<lparr> message = js ''File not found'', statusCode = Some 404,
          errorType = js ''FILE_NOT_FOUND'',
          details = JObj (fileErrorDetails workspace repoSlug filePath commitHash @
                          [(js ''response'', JStr errorText)]),
          suggestion = Some (js ''Verify the file path and commit hash are correct. File may not exist at this commit.''),
          isRetryable = False \<rparr>
      else if status = 401 then
        \<lparr> message = js ''Authentication failed for file content'', statusCode = Some 401,
          errorType = js ''AUTHENTICATION_ERROR'',
          details = JObj (fileErrorDetails workspace repoSlug filePath commitHash),
          suggestion = Some (js ''Check authentication credentials.''),
          isRetryable = False \<rparr>
      else
        \<lparr> message = js ''Failed to fetch file content: HTTP '' @ js (showNat status),
          statusCode = Some status,
          errorType = js ''FILE_FETCH_ERROR'',
          details = JObj (fileErrorDetails workspace repoSlug filePath commitHash @
                          [(js ''response'', JStr errorText)]),
          suggestion = Some (js ''Check file permissions and repository access.''),
          isRetryable = (status \<ge> 500) \<rparr>)"

text \<open>
  The Server branch's \<open>response.lines?.map((l) => l.text).join("\n") || ""\<close>: reading
  \<open>lines\<close> of a null response, calling \<open>map\<close> on a value that is not an array and
  reading \<open>text\<close> of a null line raise a TypeError.
\<close>

fun lineTexts :: "jsval list \<Rightarrow> thrown + jsval list" where
  "lineTexts [] = Inr []"
| "lineTexts (l # ls) =
     (if nullish l then
        Inl (JsError (js ''TypeError'')
               (js ''Cannot read properties of '' @ toStr l @ js '' (reading '' @
                [cu CHR 0x27] @ js ''text'' @ [cu CHR 0x27] @ js '')''))
      else (case lineTexts ls of
              Inl e \<Rightarrow> Inl e
            | Inr ts \<Rightarrow> Inr (member l (js ''text'') # ts)))"

definition serverFileContent :: "jsval \<Rightarrow> thrown + jsstring" where
  "serverFileContent response =
     (if nullish response then
        Inl (JsError (js ''TypeError'')
               (js ''Cannot read properties of '' @ toStr response @ js '' (reading '' @
                [cu CHR 0x27] @ js ''lines'' @ [cu CHR 0x27] @ js '')''))
      else
        (let lines = member response (js ''lines'') in
         if nullish lines then Inr []
         else (case lines of
                 JArr ls \<Rightarrow>
                   (case lineTexts ls of
                      Inl e \<Rightarrow> Inl e
                    | Inr ts \<Rightarrow>
                        (let joined = joinWith [cu CHR 0x0A] (map joinElem ts)
                         in Inr (if joined = [] then [] else joined)))
               | _ \<Rightarrow> Inl (JsError (js ''TypeError'') (js ''response.lines?.map is not a function'')))))"

definition getFileContent ::
  "client \<Rightarrow> remote \<Rightarrow> jsstring \<Rightarrow> jsstring \<Rightarrow> jsstring \<Rightarrow> jsstring \<Rightarrow> jsstring effect" where
  "getFileContent c env workspace repoSlug filePath commitHash =
     (if isCloud c then
        encoded workspace (\<lambda>w. encoded repoSlug (\<lambda>r.
        encoded commitHash (\<lambda>h. encoded filePath (\<lambda>f.
          (let url = clientBaseUrl c @ js ''/repositories/'' @ w @ js ''/'' @ r @
                     js ''/src/'' @ h @ js ''/'' @ f
           in ([FetchCall url],
               (case fetchUrl env url of
                  FetchFailed msg \<Rightarrow> Inl (JsError (js ''TypeError'') msg)
                | FetchResponse status body \<Rightarrow>
                    if \<not> (200 \<le> status \<and> status \<le> 299) then
                      Inl (BitbucketErr
                             (fileFetchError workspace repoSlug filePath commitHash status body))
                    else (case body of
                            Some content \<Rightarrow> Inr content
                          | None \<Rightarrow> Inl (JsError (js ''TypeError'') (js ''Body is unusable''))))))))))
      else
        encoded workspace (\<lambda>w. encoded repoSlug (\<lambda>r.
        encoded filePath (\<lambda>f. encoded commitHash (\<lambda>h.
          (case request c env
                  (js ''/projects/'' @ w @ js ''/repos/'' @ r @ js ''/browse/'' @ f @
                   js ''?at='' @ h) None None of
             (calls, Inl e) \<Rightarrow> (calls, Inl e)
           | (calls, Inr response) \<Rightarrow> (calls, serverFileContent response)))))))"








definition compareBranches ::
  "client \<Rightarrow> remote \<Rightarrow> jsstring \<Rightarrow> jsstring \<Rightarrow> jsstring \<Rightarrow> jsstring \<Rightarrow> jsval effect" where
  "compareBranches c env workspace repoSlug source destination =
     (if isCloud c then
        encoded workspace (\<lambda>w. encoded repoSlug (\<lambda>r.
        encoded destination (\<lambda>d. encoded source (\<lambda>s.
          request c env
            (js ''/repositories/'' @ w @ js ''/'' @ r @ js ''/diff/'' @ d @ js ''..'' @ s)
            None None))))
      else
        encoded workspace (\<lambda>w. encoded repoSlug (\<lambda>r.
        encoded source (\<lambda>s. encoded destination (\<lambda>d.
          request c env
            (js ''/projects/'' @ w @ js ''/repos/'' @ r @ js ''/compare/diff?from='' @ s @
             js ''&to='' @ d)
            None None)))))"


section \<open>Configuration\<close>

text \<open>
  What \<open>loadConfig\<close> reads of the process and of the working directory: whether a
  \<open>.env\<close> file exists there, the environment variables (the module has already loaded the
  \<open>.env\<close> file into them), and the three configuration files, each absent, present but
  not readable as JSON, or parsed.
\<close>

datatype fileContent = NoFile | Unparsable | Parsed jsval

record processState =
  envFile :: bool
  envVar :: "jsstring \<Rightarrow> jsstring option"
  configFile :: "jsstring \<Rightarrow> fileContent"

text \<open>
  \<open>BitbucketConfig\<close>. The JSON branch returns the file's values under a cast, whatever
  they are, so the fields are values.
\<close>

record bitbucketConfig =
  baseUrl :: jsval
  ATLASSIAN_USER_EMAIL :: jsval
  ATLASSIAN_API_TOKEN :: jsval
  authType :: authType
  defaultDestinationBranch :: jsval

text \<open>
  The configuration both environment branches build:
  \<open>url === 'bitbucket' ? cloud : (url || cloud)\<close>, the scheme from the base URL, the
  branch from \<open>BITBUCKET_DEFAULT_DEST_BRANCH || 'main'\<close>.
\<close>

definition envBaseUrl :: "jsstring option \<Rightarrow> jsstring" where
  "envBaseUrl url =
     (if url = Some (js ''bitbucket'') then cloudBaseUrl
      else (case url of None \<Rightarrow> cloudBaseUrl | Some u \<Rightarrow> if u = [] then cloudBaseUrl else u))"

definition envConfig :: "processState \<Rightarrow> jsstring \<Rightarrow> jsstring \<Rightarrow> bitbucketConfig" where
  "envConfig st envEmail envToken =
     (let b = envBaseUrl (envVar st (js ''ATLASSIAN_SITE_URL'')) in
      \<lparr> baseUrl = JStr b,
        ATLASSIAN_USER_EMAIL = JStr envEmail,
        ATLASSIAN_API_TOKEN = JStr envToken,
        authType = (if includesStr b cloudMarker then Basic else Bearer),
        defaultDestinationBranch =
          JStr (case envVar st (js ''BITBUCKET_DEFAULT_DEST_BRANCH'') of
                  None \<Rightarrow> js ''main''
                | Some d \<Rightarrow> if d = [] then js ''main'' else d) \<rparr>)"

definition credentials :: "processState \<Rightarrow> (jsstring \<times> jsstring) option" where
  "credentials st =
     (case (envVar st (js ''ATLASSIAN_USER_EMAIL''), envVar st (js ''ATLASSIAN_API_TOKEN'')) of
        (Some e, Some t) \<Rightarrow> if e \<noteq> [] \<and> t \<noteq> [] then Some (e, t) else None
      | _ \<Rightarrow> None)"

text \<open>
  \<open>fromEnv\<close>: the branch guarded by the \<open>.env\<close> file, then the branch on the
  environment variables alone.
\<close>

definition fromEnv :: "processState \<Rightarrow> bitbucketConfig option" where
  "fromEnv st =
     (case (if envFile st
            then (case credentials st of
                    Some (e, t) \<Rightarrow> Some (envConfig st e t)
                  | None \<Rightarrow> None)
            else None) of
        Some cfg \<Rightarrow> Some cfg
      | None \<Rightarrow>
          (case credentials st of
             Some (e, t) \<Rightarrow> Some (envConfig st e t)
           | None \<Rightarrow> None))"

text \<open>
  \<open>baseUrl.includes('api.bitbucket.org')\<close> on a value read from the file: substring
  search on a string, element search on an array, a TypeError (\<open>None\<close>) on anything else.
\<close>

fun valueIncludes :: "jsval \<Rightarrow> jsstring \<Rightarrow> bool option" where
  "valueIncludes (JStr s) x = Some (includesStr s x)"
| "valueIncludes (JArr xs) x = Some (JStr x \<in> set xs)"
| "valueIncludes v x = None"

definition configPaths :: "jsstring list" where
  "configPaths = [js ''mcp.config.json'', js ''.mcp.config.json'', js ''.bitbucket.mcp.json'']"

text \<open>
  The loop over the configuration files: the first file that exists, parses, has a truthy
  \<open>bitbucket.environments\<close> and raises nothing is returned; an exception falls through
  to the next file.
\<close>

fun fromConfigFiles :: "processState \<Rightarrow> jsstring list \<Rightarrow> bitbucketConfig option" where
  "fromConfigFiles st [] = None"
| "fromConfigFiles st (p # ps) =
     (case configFile st p of
        Parsed raw \<Rightarrow>
          (if truthy raw \<and> truthy (member raw (js ''bitbucket'')) \<and>
              truthy (member (member raw (js ''bitbucket'')) (js ''environments''))
           then
             (let e = member (member raw (js ''bitbucket'')) (js ''environments'');
                  b = (if member e (js ''ATLASSIAN_SITE_URL'') = JStr (js ''bitbucket'')
                       then JStr cloudBaseUrl else member e (js ''ATLASSIAN_SITE_URL''))
              in (case valueIncludes b cloudMarker of
                    None \<Rightarrow> fromConfigFiles st ps
                  | Some cloud \<Rightarrow>
                      Some \<lparr> baseUrl = b,
                             ATLASSIAN_USER_EMAIL = member e (js ''ATLASSIAN_USER_EMAIL''),
                             ATLASSIAN_API_TOKEN = member e (js ''ATLASSIAN_API_TOKEN''),
                             authType = (if cloud then Basic else Bearer),
                             defaultDestinationBranch =
                               orElse (orElse (member e (js ''BITBUCKET_DEFAULT_DEST_BRANCH''))
                                         (member (member raw (js ''bitbucket''))
                                            (js ''defaultDestinationBranch'')))
                                 (JStr (js ''main'')) \<rparr>))
           else fromConfigFiles st ps)
      | _ \<Rightarrow> fromConfigFiles st ps)"

definition loadConfig :: "processState \<Rightarrow> thrown + bitbucketConfig" where
  "loadConfig st =
     (case fromConfigFiles st configPaths of
        Some cfg \<Rightarrow> Inr cfg
      | None \<Rightarrow>
          (case fromEnv st of
             None \<Rightarrow>
               Inl (JsError (js ''Error'')
                      (js ''Missing credentials. Provide env vars ATLASSIAN_USER_EMAIL and ATLASSIAN_API_TOKEN or mcp.config.json with bitbucket.environments.''))
           | Some cfg \<Rightarrow> Inr cfg))"


section \<open>Remote URLs\<close>

subsection \<open>Regular expressions as backtracking matchers\<close>

text \<open>
  Each regular expression of \<open>parseBitbucketRemote\<close> is written as the backtracking
  matcher the engine runs: a piece takes the rest of the input and a continuation for
  what follows it, tries its alternatives in the engine's order (a greedy piece the
  longest first, a lazy piece the shortest first, an optional piece present first) and
  returns the first success. Both expressions start with \<open>^\<close>, so a match starts at the
  first character, and end with \<open>$\<close> (no \<open>m\<close> flag), so it ends at the last one.

  Both carry the \<open>i\<close> flag and not the \<open>u\<close> flag: the engine works on code units, and
  a pattern character matches an input character with the same canonical form. All
  pattern characters are ASCII, and a code unit from 128 on never has the canonical form
  of an ASCII character, so a pattern character matches itself and, for a letter, its other
  case: equality after mapping \<open>a\<close> to \<open>z\<close> to upper case.
\<close>

definition upperCode :: "16 word \<Rightarrow> nat" where
  "upperCode c = (if 97 \<le> unat c \<and> unat c \<le> 122 then unat c - 32 else unat c)"

definition ciEq :: "16 word \<Rightarrow> 16 word \<Rightarrow> bool" where
  "ciEq p c = (upperCode p = upperCode c)"










subsection \<open>parseBitbucketRemote\<close>

record remoteDescriptor =
  host :: jsstring
  workspace :: jsstring
  repoSlug :: jsstring



subsection \<open>Notions for reasoning about the matchers\<close>







section \<open>Tools and the session\<close>

text \<open>
  A tool result is a list of text blocks and the \<open>isError\<close> flag (absent is
  \<open>False\<close>). A block is a literal text or \<open>JSON.stringify(v, null, 2)\<close> of a value,
  kept as the value.
\<close>

datatype textBlock = PlainText jsstring | JsonText jsval

record toolResult =
  content :: "textBlock list"
  isError :: bool

text \<open>
  A tool definition: its name, the \<open>required\<close> list of its input schema, and its
  handler, which receives the remote side and the arguments.
\<close>

record toolDef =
  toolName :: jsstring
  requiredArgs :: "jsstring list"
  handler :: "remote \<Rightarrow> jsval \<Rightarrow> toolResult effect"

definition getDefaultWorkspace :: "jsval \<Rightarrow> thrown + jsval" where
  "getDefaultWorkspace args =
     (let w = optMember args (js ''workspace'') in
      if \<not> truthy w then Inl (JsError (js ''Error'') (js ''workspace parameter is required''))
      else Inr w)"

definition getDefaultRepoSlug :: "jsval \<Rightarrow> thrown + jsval" where
  "getDefaultRepoSlug args =
     (let r = optMember args (js ''repoSlug'') in
      if \<not> truthy r then Inl (JsError (js ''Error'') (js ''repoSlug parameter is required''))
      else Inr r)"

definition jsonOut :: "jsval \<Rightarrow> textBlock list" where
  "jsonOut v = [JsonText v]"

text \<open>
  The handlers. The workspace and the slug reach the client under a cast; the client
  only ever converts them to strings (in a template or in \<open>encodeURIComponent\<close>), so
  the model converts them at the call.
\<close>

definition repo_info_handler :: "client \<Rightarrow> remote \<Rightarrow> jsval \<Rightarrow> toolResult effect" where
  "repo_info_handler c env args =
     (case getDefaultWorkspace args of
        Inl e \<Rightarrow> ([], Inl e)
      | Inr w \<Rightarrow>
          (case getDefaultRepoSlug args of
             Inl e \<Rightarrow> ([], Inl e)
           | Inr r \<Rightarrow>
               (case getRepo c env (toStr w) (toStr r) of
                  (calls, Inl e) \<Rightarrow> (calls, Inl e)
                | (calls, Inr d) \<Rightarrow> (calls, Inr \<lparr> content = jsonOut d, isError = False \<rparr>))))"

definition pr_comment_add_handler :: "client \<Rightarrow> remote \<Rightarrow> jsval \<Rightarrow> toolResult effect" where
  "pr_comment_add_handler c env args =
     (case getDefaultWorkspace args of
        Inl e \<Rightarrow> ([], Inl e)
      | Inr w \<Rightarrow>
          (case getDefaultRepoSlug args of
             Inl e \<Rightarrow> ([], Inl e)
           | Inr r \<Rightarrow>
               (case addPullRequestComment c env (toStr w) (toStr r)
                       (member args (js ''prId'')) (member args (js ''text'')) of
                  (calls, Inl e) \<Rightarrow> (calls, Inl e)
                | (calls, Inr d) \<Rightarrow> (calls, Inr \<lparr> content = jsonOut d, isError = False \<rparr>))))"

definition repo_info :: "client \<Rightarrow> toolDef" where
  "repo_info c =
     \<lparr> toolName = js ''repo_info'', requiredArgs = [js ''workspace'', js ''repoSlug''],
       handler = repo_info_handler c \<rparr>"

definition pr_comment_add :: "client \<Rightarrow> toolDef" where
  "pr_comment_add c =
     \<lparr> toolName = js ''pr_comment_add'',
       requiredArgs = [js ''workspace'', js ''repoSlug'', js ''prId'', js ''text''],
       handler = pr_comment_add_handler c \<rparr>"

text \<open>
  The fields the session reports for a \<open>BitbucketError\<close>; an \<open>undefined\<close> status or
  suggestion stays \<open>undefined\<close>.
\<close>

definition errorInfo :: "bitbucketError \<Rightarrow> jsval" where
  "errorInfo e =
     JObj [(js ''error'', JStr (message e)),
           (js ''errorType'', JStr (errorType e)),
           (js ''statusCode'', (case statusCode e of None \<Rightarrow> JUndefined | Some n \<Rightarrow> JNum (int n))),
           (js ''suggestion'', (case suggestion e of None \<Rightarrow> JUndefined | Some s \<Rightarrow> JStr s)),
           (js ''isRetryable'', JBool (isRetryable e)),
           (js ''details'', details e)]"

text \<open>
  \<open>String(e?.message || e)\<close> for an \<open>Error\<close>: its message, or for an empty message
  what \<open>Error.prototype.toString\<close> gives, the name.
\<close>

definition errorText :: "jsstring \<Rightarrow> jsstring \<Rightarrow> jsstring" where
  "errorText nm msg = (if msg \<noteq> [] then msg else nm)"

text \<open>
  The handler of an invoke-tool request over a registry \<open>tools\<close>: \<open>nm\<close> is
  \<open>req.params.name\<close> and \<open>arguments\<close> is \<open>req.params.arguments\<close>.
\<close>

definition callTool ::
  "toolDef list \<Rightarrow> remote \<Rightarrow> jsstring \<Rightarrow> jsval \<Rightarrow> netCall list \<times> toolResult" where
  "callTool tools env nm arguments =
     (let args = orElse arguments (JObj []) in
      case find (\<lambda>t. toolName t = nm) tools of
        None \<Rightarrow> ([], \<lparr> content = [PlainText (js ''Tool not found: '' @ nm)], isError = True \<rparr>)
      | Some t \<Rightarrow>
          (case handler t env args of
             (calls, Inr res) \<Rightarrow> (calls, res)
           | (calls, Inl (BitbucketErr e)) \<Rightarrow>
               (calls, \<lparr> content = [JsonText (errorInfo e)], isError = True \<rparr>)
           | (calls, Inl (JsError n msg)) \<Rightarrow>
               (calls, \<lparr> content = [PlainText (errorText n msg)], isError = True \<rparr>)))"


section \<open>Observations and example values\<close>

text \<open>
  The status-code table of the specification, from its words: the kind and the
  retryability for a failure status.
\<close>

definition statusTable :: "nat \<Rightarrow> jsstring \<times> bool" where
  "statusTable st =
     (if st = 401 then (js ''AUTHENTICATION_ERROR'', False)
      else if st = 403 then (js ''PERMISSION_ERROR'', False)
      else if st = 404 then (js ''NOT_FOUND_ERROR'', False)
      else if st = 400 then (js ''VALIDATION_ERROR'', False)
      else if st = 409 then (js ''CONFLICT_ERROR'', False)
      else if st = 429 then (js ''RATE_LIMIT_ERROR'', True)
      else if st \<ge> 500 then (js ''SERVER_ERROR'', True)
      else (js ''UNKNOWN_ERROR'', False))"

text \<open>The error codes the table's network and timeout rows are keyed on.\<close>

definition networkCodes :: "jsstring option set" where
  "networkCodes = {Some (js ''ENOTFOUND''), Some (js ''ECONNREFUSED''), Some (js ''ETIMEDOUT'')}"

text \<open>The kind and retryability of the \<open>BitbucketError\<close> an operation raised, if it raised one.\<close>

definition raisedKind :: "'a effect \<Rightarrow> (jsstring \<times> bool) option" where
  "raisedKind r =
     (case snd r of
        Inl (BitbucketErr b) \<Rightarrow> Some (errorType b, isRetryable b)
      | _ \<Rightarrow> None)"

text \<open>A Cloud client, a Server client and two remote sides, for the examples.\<close>

definition exampleCloud :: client where
  "exampleCloud = BitbucketClient \<lparr> optEmail = js ''u@example.com'', optToken = js ''t'',
      optBaseUrl = None, optAuthType = None \<rparr>"

definition exampleServer :: client where
  "exampleServer = BitbucketClient \<lparr> optEmail = js ''u@example.com'', optToken = js ''t'',
      optBaseUrl = Some (js ''https://git.example.com/rest/api/1.0''), optAuthType = None \<rparr>"

definition quietRemote :: remote where
  "quietRemote = \<lparr> axiosRequest = (\<lambda>r. Resolved JNull), fetchUrl = (\<lambda>u. FetchFailed []) \<rparr>"

definition rejecting :: "nat \<Rightarrow> remote" where
  "rejecting st =
     \<lparr> axiosRequest = (\<lambda>r. Rejected \<lparr> responseStatus = Some st, responseData = JNull,
                                       errorCode = Some (js ''ERR_BAD_REQUEST''),
                                       errorMessage = js ''Request failed'' \<rparr>),
       fetchUrl = (\<lambda>u. FetchResponse st (Some (js ''failed''))) \<rparr>"


definition answering :: "jsval \<Rightarrow> remote" where
  "answering v = \<lparr> axiosRequest = (\<lambda>r. Resolved v), fetchUrl = (\<lambda>u. FetchFailed []) \<rparr>"

text \<open>
  Working directories for the examples: one with a \<open>.env\<close> file, the credentials in
  the environment and a configuration file; two with the environment alone.
\<close>

definition fileEnvironments :: jsval where
  "fileEnvironments =
     JObj [(js ''bitbucket'', JObj [(js ''environments'', JObj
        [(js ''ATLASSIAN_SITE_URL'', JStr (js ''https://git.example.com/rest/api/1.0'')),
         (js ''ATLASSIAN_USER_EMAIL'', JStr (js ''file@example.com'')),
         (js ''ATLASSIAN_API_TOKEN'', JStr (js ''filetoken''))])])]"

definition bothSources :: processState where
  "bothSources =
     \<lparr> envFile = True,
       envVar = [js ''ATLASSIAN_USER_EMAIL'' \<mapsto> js ''env@example.com'',
                 js ''ATLASSIAN_API_TOKEN'' \<mapsto> js ''envtoken''],
       configFile = (\<lambda>p. if p = js ''mcp.config.json'' then Parsed fileEnvironments else NoFile) \<rparr>"







text \<open>
  A string is well formed when no surrogate in it stands alone: every high surrogate is
  followed by a low one and every low surrogate follows a high one.
\<close>

fun wellFormed :: "jsstring \<Rightarrow> bool" where
  "wellFormed [] = True"
| "wellFormed (c # cs) =
     (if lowSurrogate c then False
      else if highSurrogate c then
        (case cs of [] \<Rightarrow> False | d # ds \<Rightarrow> lowSurrogate d \<and> wellFormed ds)
      else wellFormed cs)"


section \<open>Verified properties\<close>

subsection \<open>Strings\<close>

lemma unat_cu [simp]: "unat (cu c) = of_char c"
proof -
  have "cu c = of_nat (of_char c)" by (simp only: cu_def of_nat_of_char)
  moreover have "(of_char c :: nat) < 2 ^ 16"
    by (rule less_trans [OF nat_of_char_less_256]) simp
  ultimately show ?thesis by (simp add: unat_of_nat)
qed

lemma cu_eq_iff [simp]: "cu a = cu b \<longleftrightarrow> a = b"
proof
  assume "cu a = cu b"
  then have "unat (cu a) = unat (cu b)" by simp
  then have "(of_char a :: nat) = of_char b" by (simp only: unat_cu)
  then show "a = b" by (simp only: of_char_eq_iff)
qed simp

lemma js_Nil [simp]: "js [] = []"
  by (simp add: js_def)

lemma js_Cons [simp]: "js (c # s) = cu c # js s"
  by (simp add: js_def)

lemma cu_eq_numeral [simp]:
  "cu c = numeral n \<longleftrightarrow> (of_char c :: nat) = unat (numeral n :: 16 word)"
  "numeral n = cu c \<longleftrightarrow> (of_char c :: nat) = unat (numeral n :: 16 word)"
  by (auto simp: word_unat_eq_iff)

subsection \<open>Percent-encoding\<close>

lemma unreserved_ascii: "uriUnreserved c \<Longrightarrow> unat c < 128"
  by (auto simp: uriUnreserved_def)

lemma unreserved_not_surrogate:
  "uriUnreserved c \<Longrightarrow> \<not> lowSurrogate c \<and> \<not> highSurrogate c"
  using unreserved_ascii [of c] by (simp add: lowSurrogate_def highSurrogate_def)

lemma encode_total:
  "encodeURIComponent s = (if wellFormed s then encodeURIComponent s else Inl uriMalformed) \<and>
   (wellFormed s \<longrightarrow> (\<exists>r. encodeURIComponent s = Inr r))"
proof (induction s rule: encodeURIComponent.induct)
  case 1
  show ?case by simp
next
  case (2 c cs)
  show ?case
  proof (cases "uriUnreserved c")
    case True
    then have ns: "\<not> lowSurrogate c" "\<not> highSurrogate c"
      using unreserved_not_surrogate by auto
    show ?thesis
      using 2(1) [OF True] True ns by (cases "wellFormed cs") auto
  next
    case False
    note u = False
    show ?thesis
    proof (cases "lowSurrogate c")
      case True
      then show ?thesis using u by simp
    next
      case False
      note l = False
      show ?thesis
      proof (cases "highSurrogate c")
        case True
        note h = True
        show ?thesis
        proof (cases cs)
          case Nil
          then show ?thesis using u l h by simp
        next
          case (Cons d ds)
          show ?thesis
          proof (cases "lowSurrogate d")
            case True
            show ?thesis
              using 2(2) [OF u l h Cons True] u l h Cons True
              by (cases "wellFormed ds") auto
          next
            case False
            then show ?thesis using u l h Cons by simp
          qed
        qed
      next
        case False
        show ?thesis
          using 2(3) [OF u l False] u l False by (cases "wellFormed cs") auto
      qed
    qed
  qed
qed

lemma encode_wellFormed: "wellFormed s \<Longrightarrow> \<exists>r. encodeURIComponent s = Inr r"
  using encode_total [of s] by simp

lemma encode_illFormed: "\<not> wellFormed s \<Longrightarrow> encodeURIComponent s = Inl uriMalformed"
  using encode_total [of s] by simp

lemma encoded_Inr: "encodeURIComponent s = Inr t \<Longrightarrow> encoded s k = k t"
  by (simp add: encoded_def)

lemma encoded_Inl: "encodeURIComponent s = Inl e \<Longrightarrow> encoded s k = ([], Inl e)"
  by (simp add: encoded_def)

lemmas enc_eval = encoded_def uriUnreserved_def lowSurrogate_def highSurrogate_def
  pairCodePoint_def pctEncoded_def utf8_def pctByte_def hexDigit_def

subsection \<open>Dialect selection\<close>

lemma cloudBaseUrl_marker: "includesStr cloudBaseUrl cloudMarker"
  by (simp add: cloudBaseUrl_def cloudMarker_def)

lemma isCloud_BitbucketClient:
  "isCloud (BitbucketClient opts) = includesStr (clientBaseUrl (BitbucketClient opts)) cloudMarker"
  using cloudBaseUrl_marker by (auto simp: BitbucketClient_def Let_def split: option.splits)

lemma fst_request:
  "fst (request c env path im ib) =
     [AxiosCall \<lparr> reqBaseURL = clientBaseUrl c,
        reqMethod = (case im of None \<Rightarrow> GET | Some x \<Rightarrow> x), reqPath = path, reqBody = ib \<rparr>]"
  by (simp add: request_def Let_def)

lemma snd_request:
  "snd (request c env path im ib) =
     (case axiosRequest env \<lparr> reqBaseURL = clientBaseUrl c,
             reqMethod = (case im of None \<Rightarrow> GET | Some x \<Rightarrow> x), reqPath = path, reqBody = ib \<rparr> of
        Resolved d \<Rightarrow> Inr d
      | Rejected e \<Rightarrow> Inl (BitbucketErr (requestError path (case im of None \<Rightarrow> GET | Some x \<Rightarrow> x) e)))"
  by (simp add: request_def Let_def)

lemma exampleCloud_simps:
  "exampleCloud = \<lparr> email = js ''u@example.com'', token = js ''t'',
      clientBaseUrl = js ''https://api.bitbucket.org/2.0'', clientAuthType = Basic, isCloud = True \<rparr>"
  by (simp add: exampleCloud_def BitbucketClient_def cloudBaseUrl_def cloudMarker_def)

lemma exampleServer_simps:
  "exampleServer = \<lparr> email = js ''u@example.com'', token = js ''t'',
      clientBaseUrl = js ''https://git.example.com/rest/api/1.0'', clientAuthType = Bearer,
      isCloud = False \<rparr>"
  by (simp add: exampleServer_def BitbucketClient_def cloudBaseUrl_def cloudMarker_def)

text \<open>
  Claim C1, as stated, fails for a string with a surrogate that stands alone:
  \<open>encodeURIComponent\<close> raises a \<open>URIError\<close> while the path is built, and no request is
  issued.
\<close>

theorem getRepo_lone_surrogate_counterexample:
  "getRepo exampleCloud quietRemote [0xD800] (js ''repo'') =
     ([], Inl (JsError (js ''URIError'') (js ''URI malformed'')))"
  by (simp add: getRepo_def exampleCloud_simps enc_eval uriMalformed_def)

text \<open>
  Claim C1, amended. For every workspace and repository slug that are well formed,
  \<open>getRepo\<close> issues exactly one request, a \<open>GET\<close>, whose path is
  \<open>/repositories/{ws}/{rs}\<close> when the base URL of the client contains
  \<open>api.bitbucket.org\<close> and \<open>/projects/{ws}/repos/{rs}\<close> otherwise, each segment being
  what \<open>encodeURIComponent\<close> returns. When one of the two holds a surrogate that stands
  alone, a \<open>URIError\<close> is raised and no request is issued. The dialect is read from the
  base URL the constructor stored, so it does not depend on the call or on what the remote
  answers.
\<close>

theorem getRepo_dialect_path:
  "(wellFormed ws \<and> wellFormed rs \<longrightarrow>
      (\<exists>w r. encodeURIComponent ws = Inr w \<and> encodeURIComponent rs = Inr r \<and>
         fst (getRepo (BitbucketClient opts) env ws rs) =
           [AxiosCall \<lparr> reqBaseURL = clientBaseUrl (BitbucketClient opts), reqMethod = GET,
              reqPath = (if includesStr (clientBaseUrl (BitbucketClient opts)) cloudMarker
                         then js ''/repositories/'' @ w @ js ''/'' @ r
                         else js ''/projects/'' @ w @ js ''/repos/'' @ r),
              reqBody = None \<rparr>])) \<and>
   (\<not> (wellFormed ws \<and> wellFormed rs) \<longrightarrow>
      getRepo (BitbucketClient opts) env ws rs =
        ([], Inl (JsError (js ''URIError'') (js ''URI malformed''))))"
proof (intro conjI impI)
  assume "wellFormed ws \<and> wellFormed rs"
  then obtain w r where e: "encodeURIComponent ws = Inr w" "encodeURIComponent rs = Inr r"
    using encode_wellFormed by blast
  have "fst (getRepo (BitbucketClient opts) env ws rs) =
           [AxiosCall \<lparr> reqBaseURL = clientBaseUrl (BitbucketClient opts), reqMethod = GET,
              reqPath = (if includesStr (clientBaseUrl (BitbucketClient opts)) cloudMarker
                         then js ''/repositories/'' @ w @ js ''/'' @ r
                         else js ''/projects/'' @ w @ js ''/repos/'' @ r),
              reqBody = None \<rparr>]"
    by (simp add: getRepo_def encoded_Inr [OF e(1)] encoded_Inr [OF e(2)] fst_request
          isCloud_BitbucketClient)
  then show "\<exists>w r. encodeURIComponent ws = Inr w \<and> encodeURIComponent rs = Inr r \<and>
         fst (getRepo (BitbucketClient opts) env ws rs) =
           [AxiosCall \<lparr> reqBaseURL = clientBaseUrl (BitbucketClient opts), reqMethod = GET,
              reqPath = (if includesStr (clientBaseUrl (BitbucketClient opts)) cloudMarker
                         then js ''/repositories/'' @ w @ js ''/'' @ r
                         else js ''/projects/'' @ w @ js ''/repos/'' @ r),
              reqBody = None \<rparr>]"
    using e by blast
next
  assume n: "\<not> (wellFormed ws \<and> wellFormed rs)"
  show "getRepo (BitbucketClient opts) env ws rs =
        ([], Inl (JsError (js ''URIError'') (js ''URI malformed'')))"
  proof (cases "wellFormed ws")
    case False
    then show ?thesis
      by (simp add: getRepo_def encoded_Inl [OF encode_illFormed] uriMalformed_def)
  next
    case True
    then obtain w where w: "encodeURIComponent ws = Inr w"
      using encode_wellFormed by blast
    have "\<not> wellFormed rs" using n True by simp
    then show ?thesis
      by (simp add: getRepo_def encoded_Inr [OF w] encoded_Inl [OF encode_illFormed]
            uriMalformed_def)
  qed
qed

theorem getRepo_dialect_path_witness:
  "fst (getRepo (BitbucketClient \<lparr> optEmail = js ''u@example.com'', optToken = js ''t'',
           optBaseUrl = Some (js ''https://git.example.com/rest/api/1.0''), optAuthType = None \<rparr>)
          quietRemote (js ''my team'') (js ''a/b'')) =
     [AxiosCall \<lparr> reqBaseURL = js ''https://git.example.com/rest/api/1.0'', reqMethod = GET,
        reqPath = js ''/projects/my%20team/repos/a%2Fb'', reqBody = None \<rparr>] \<and>
   fst (getRepo (BitbucketClient \<lparr> optEmail = js ''u@example.com'', optToken = js ''t'',
           optBaseUrl = None, optAuthType = None \<rparr>)
          quietRemote [0xE9, 0x20AC] [0xD83D, 0xDE00]) =
     [AxiosCall \<lparr> reqBaseURL = js ''https://api.bitbucket.org/2.0'', reqMethod = GET,
        reqPath = js ''/repositories/%C3%A9%E2%82%AC/%F0%9F%98%80'', reqBody = None \<rparr>] \<and>
   getRepo (BitbucketClient \<lparr> optEmail = js ''u@example.com'', optToken = js ''t'',
           optBaseUrl = None, optAuthType = None \<rparr>)
          quietRemote (js ''ws'') [0xDE00, 0xD83D] =
     ([], Inl (JsError (js ''URIError'') (js ''URI malformed'')))"
proof -
  let ?server = "\<lparr> optEmail = js ''u@example.com'', optToken = js ''t'',
           optBaseUrl = Some (js ''https://git.example.com/rest/api/1.0''), optAuthType = None \<rparr>"
  let ?cloud = "\<lparr> optEmail = js ''u@example.com'', optToken = js ''t'',
           optBaseUrl = None, optAuthType = None \<rparr>"
  have 1: "wellFormed (js ''my team'') \<and> wellFormed (js ''a/b'')"
    by (simp add: lowSurrogate_def highSurrogate_def)
  have 2: "wellFormed [0xE9, 0x20AC] \<and> wellFormed [0xD83D, 0xDE00]"
    by (simp add: lowSurrogate_def highSurrogate_def)
  have 3: "\<not> (wellFormed (js ''ws'') \<and> wellFormed [0xDE00, 0xD83D])"
    by (simp add: lowSurrogate_def highSurrogate_def)
  have a1: "fst (getRepo (BitbucketClient ?server) quietRemote (js ''my team'') (js ''a/b'')) =
     [AxiosCall \<lparr> reqBaseURL = js ''https://git.example.com/rest/api/1.0'', reqMethod = GET,
        reqPath = js ''/projects/my%20team/repos/a%2Fb'', reqBody = None \<rparr>]"
    using getRepo_dialect_path [of "js ''my team''" "js ''a/b''" ?server quietRemote,
            THEN conjunct1, rule_format, OF 1]
    by (simp add: enc_eval BitbucketClient_def cloudMarker_def cloudBaseUrl_def)
  have a2: "fst (getRepo (BitbucketClient ?cloud) quietRemote [0xE9, 0x20AC] [0xD83D, 0xDE00]) =
     [AxiosCall \<lparr> reqBaseURL = js ''https://api.bitbucket.org/2.0'', reqMethod = GET,
        reqPath = js ''/repositories/%C3%A9%E2%82%AC/%F0%9F%98%80'', reqBody = None \<rparr>]"
    using getRepo_dialect_path [of "[0xE9, 0x20AC]" "[0xD83D, 0xDE00]" ?cloud quietRemote,
            THEN conjunct1, rule_format, OF 2]
    by (simp add: enc_eval BitbucketClient_def cloudMarker_def cloudBaseUrl_def)
  show ?thesis
    using a1 a2
          getRepo_dialect_path [of "js ''ws''" "[0xDE00, 0xD83D]" ?cloud quietRemote,
            THEN conjunct2, rule_format, OF 3]
    by simp
qed

subsection \<open>Helper facts\<close>

lemma requestError_table:
  assumes "responseStatus e = Some st"
      and "st \<in> {400, 401, 403, 404, 409, 429} \<or> 500 \<le> st \<or> errorCode e \<notin> networkCodes"
  shows "(errorType (requestError path m e), isRetryable (requestError path m e)) = statusTable st"
  using assms
  by (auto simp: requestError_def statusTable_def networkCodes_def Let_def)


subsection \<open>Branch comparison\<close>

text \<open>
  Claim C8, as stated, fails for a branch name with a surrogate that stands alone:
  \<open>encodeURIComponent\<close> raises a \<open>URIError\<close> while the path is built, and no request is
  issued.
\<close>

theorem compareBranches_lone_surrogate_counterexample:
  "compareBranches exampleCloud quietRemote (js ''ws'') (js ''repo'')
     (js ''feature'' @ [0xD83D]) (js ''main'') =
     ([], Inl (JsError (js ''URIError'') (js ''URI malformed'')))"
  by (simp add: compareBranches_def exampleCloud_simps enc_eval uriMalformed_def)

text \<open>
  Claim C8, amended. For every workspace, slug, source and destination branch that
  \<open>encodeURIComponent\<close> accepts (the well-formed strings), \<open>compareBranches\<close> issues one
  \<open>GET\<close>: on Cloud of \<open>.../diff/{destination}..{source}\<close>, the destination first, and on
  Server of \<open>.../compare/diff?from={source}&to={destination}\<close>, each segment being what
  \<open>encodeURIComponent\<close> returns. When one of the four strings holds a surrogate that
  stands alone, a \<open>URIError\<close> is raised and no request is issued.
\<close>

theorem compareBranches_paths:
  "(wellFormed ws \<and> wellFormed rs \<and> wellFormed src \<and> wellFormed dst \<longrightarrow>
      (\<exists>w r s d. encodeURIComponent ws = Inr w \<and> encodeURIComponent rs = Inr r \<and>
         encodeURIComponent src = Inr s \<and> encodeURIComponent dst = Inr d \<and>
         fst (compareBranches c env ws rs src dst) =
           [AxiosCall \<lparr> reqBaseURL = clientBaseUrl c, reqMethod = GET,
              reqPath = (if isCloud c
                         then js ''/repositories/'' @ w @ js ''/'' @ r @ js ''/diff/'' @ d @
                              js ''..'' @ s
                         else js ''/projects/'' @ w @ js ''/repos/'' @ r @
                              js ''/compare/diff?from='' @ s @ js ''&to='' @ d),
              reqBody = None \<rparr>])) \<and>
   (\<not> (wellFormed ws \<and> wellFormed rs \<and> wellFormed src \<and> wellFormed dst) \<longrightarrow>
      compareBranches c env ws rs src dst =
        ([], Inl (JsError (js ''URIError'') (js ''URI malformed''))))"
proof (intro conjI impI)
  assume "wellFormed ws \<and> wellFormed rs \<and> wellFormed src \<and> wellFormed dst"
  then obtain w r s d where e: "encodeURIComponent ws = Inr w" "encodeURIComponent rs = Inr r"
      "encodeURIComponent src = Inr s" "encodeURIComponent dst = Inr d"
    using encode_wellFormed by metis
  have "fst (compareBranches c env ws rs src dst) =
           [AxiosCall \<lparr> reqBaseURL = clientBaseUrl c, reqMethod = GET,
              reqPath = (if isCloud c
                         then js ''/repositories/'' @ w @ js ''/'' @ r @ js ''/diff/'' @ d @
                              js ''..'' @ s
                         else js ''/projects/'' @ w @ js ''/repos/'' @ r @
                              js ''/compare/diff?from='' @ s @ js ''&to='' @ d),
              reqBody = None \<rparr>]"
    by (simp add: compareBranches_def encoded_Inr [OF e(1)] encoded_Inr [OF e(2)]
          encoded_Inr [OF e(3)] encoded_Inr [OF e(4)] fst_request)
  then show "\<exists>w r s d. encodeURIComponent ws = Inr w \<and> encodeURIComponent rs = Inr r \<and>
         encodeURIComponent src = Inr s \<and> encodeURIComponent dst = Inr d \<and>
         fst (compareBranches c env ws rs src dst) =
           [AxiosCall \<lparr> reqBaseURL = clientBaseUrl c, reqMethod = GET,
              reqPath = (if isCloud c
                         then js ''/repositories/'' @ w @ js ''/'' @ r @ js ''/diff/'' @ d @
                              js ''..'' @ s
                         else js ''/projects/'' @ w @ js ''/repos/'' @ r @
                              js ''/compare/diff?from='' @ s @ js ''&to='' @ d),
              reqBody = None \<rparr>]"
    using e by blast
next
  assume n: "\<not> (wellFormed ws \<and> wellFormed rs \<and> wellFormed src \<and> wellFormed dst)"
  have bad: "encoded x k = ([], Inl uriMalformed)" if "\<not> wellFormed x"
    for x and k :: "jsstring \<Rightarrow> jsval effect"
    by (rule encoded_Inl [OF encode_illFormed [OF that]])
  show "compareBranches c env ws rs src dst =
        ([], Inl (JsError (js ''URIError'') (js ''URI malformed'')))"
  proof (cases "wellFormed ws")
    case False
    then show ?thesis by (simp add: compareBranches_def bad uriMalformed_def)
  next
    case ws: True
    then obtain w where w: "encodeURIComponent ws = Inr w" using encode_wellFormed by blast
    show ?thesis
    proof (cases "wellFormed rs")
      case False
      then show ?thesis
        by (simp add: compareBranches_def encoded_Inr [OF w] bad uriMalformed_def)
    next
      case rs: True
      then obtain r where r: "encodeURIComponent rs = Inr r" using encode_wellFormed by blast
      show ?thesis
      proof (cases "wellFormed src")
        case False
        show ?thesis
        proof (cases "wellFormed dst")
          case False
          then show ?thesis
            using \<open>\<not> wellFormed src\<close>
            by (simp add: compareBranches_def encoded_Inr [OF w] encoded_Inr [OF r] bad
                  uriMalformed_def)
        next
          case True
          then obtain d where d: "encodeURIComponent dst = Inr d"
            using encode_wellFormed by blast
          show ?thesis
            using \<open>\<not> wellFormed src\<close>
            by (simp add: compareBranches_def encoded_Inr [OF w] encoded_Inr [OF r]
                  encoded_Inr [OF d] bad uriMalformed_def)
        qed
      next
        case True
        then obtain s where s: "encodeURIComponent src = Inr s"
          using encode_wellFormed by blast
        have "\<not> wellFormed dst" using n ws rs True by simp
        then show ?thesis
          by (simp add: compareBranches_def encoded_Inr [OF w] encoded_Inr [OF r]
                encoded_Inr [OF s] bad uriMalformed_def)
      qed
    qed
  qed
qed

theorem compareBranches_paths_witness:
  "fst (compareBranches exampleCloud quietRemote (js ''ws'') (js ''repo'') (js ''feature/x'')
          (js ''main'')) =
     [AxiosCall \<lparr> reqBaseURL = js ''https://api.bitbucket.org/2.0'', reqMethod = GET,
        reqPath = js ''/repositories/ws/repo/diff/main..feature%2Fx'', reqBody = None \<rparr>] \<and>
   fst (compareBranches exampleServer quietRemote (js ''ws'') (js ''repo'') (js ''feature/x'')
          (js ''main'')) =
     [AxiosCall \<lparr> reqBaseURL = js ''https://git.example.com/rest/api/1.0'', reqMethod = GET,
        reqPath = js ''/projects/ws/repos/repo/compare/diff?from=feature%2Fx&to=main'',
        reqBody = None \<rparr>] \<and>
   compareBranches exampleServer quietRemote (js ''ws'') (js ''repo'') (js ''main'') [0xDC00] =
     ([], Inl (JsError (js ''URIError'') (js ''URI malformed'')))"
proof -
  have 1: "wellFormed (js ''ws'') \<and> wellFormed (js ''repo'') \<and> wellFormed (js ''feature/x'') \<and>
           wellFormed (js ''main'')"
    by (simp add: lowSurrogate_def highSurrogate_def)
  have 2: "\<not> (wellFormed (js ''ws'') \<and> wellFormed (js ''repo'') \<and> wellFormed (js ''main'') \<and>
              wellFormed [0xDC00])"
    by (simp add: lowSurrogate_def highSurrogate_def)
  have a1: "fst (compareBranches exampleCloud quietRemote (js ''ws'') (js ''repo'')
                   (js ''feature/x'') (js ''main'')) =
     [AxiosCall \<lparr> reqBaseURL = js ''https://api.bitbucket.org/2.0'', reqMethod = GET,
        reqPath = js ''/repositories/ws/repo/diff/main..feature%2Fx'', reqBody = None \<rparr>]"
    using compareBranches_paths [of "js ''ws''" "js ''repo''" "js ''feature/x''" "js ''main''"
            exampleCloud quietRemote, THEN conjunct1, rule_format, OF 1]
    by (simp add: enc_eval exampleCloud_simps)
  have a2: "fst (compareBranches exampleServer quietRemote (js ''ws'') (js ''repo'')
                   (js ''feature/x'') (js ''main'')) =
     [AxiosCall \<lparr> reqBaseURL = js ''https://git.example.com/rest/api/1.0'', reqMethod = GET,
        reqPath = js ''/projects/ws/repos/repo/compare/diff?from=feature%2Fx&to=main'',
        reqBody = None \<rparr>]"
    using compareBranches_paths [of "js ''ws''" "js ''repo''" "js ''feature/x''" "js ''main''"
            exampleServer quietRemote, THEN conjunct1, rule_format, OF 1]
    by (simp add: enc_eval exampleServer_simps)
  show ?thesis
    using a1 a2
          compareBranches_paths [of "js ''ws''" "js ''repo''" "js ''main''" "[0xDC00]"
            exampleServer quietRemote, THEN conjunct2, rule_format, OF 2]
    by simp
qed

subsection \<open>Merging and updating on Server\<close>




subsection \<open>Error translation\<close>

text \<open>
  Claim C4, as stated, fails on the Cloud file-content fetch: it does not go through
  \<open>request\<close>, and a 404 there is raised as \<open>FILE_NOT_FOUND\<close>, not \<open>NOT_FOUND_ERROR\<close>.
\<close>

theorem cloud_file_404_counterexample:
  "raisedKind (getFileContent exampleCloud (rejecting 404) (js ''ws'') (js ''repo'')
                 (js ''README.md'') (js ''main'')) =
     Some (js ''FILE_NOT_FOUND'', False)"
  by (simp add: getFileContent_def Let_def raisedKind_def fileFetchError_def rejecting_def
        exampleCloud_simps enc_eval)

text \<open>
  Claim C4, amended. An operation that goes through \<open>request\<close> raises, for a rejection
  that carries a response status, the kind and retryability of the status-code table
  (for a status outside the table's rows, as long as the error code is not one of the
  network and timeout codes, which have rows of their own). The Cloud file-content
  fetch has a table of its own: 404 gives \<open>FILE_NOT_FOUND\<close>, 401
  \<open>AUTHENTICATION_ERROR\<close>, any other failure status \<open>FILE_FETCH_ERROR\<close>, retryable
  exactly from 500 on.
\<close>

theorem error_kinds_by_route:
  "(axiosRequest env \<lparr> reqBaseURL = clientBaseUrl c,
        reqMethod = (case im of None \<Rightarrow> GET | Some x \<Rightarrow> x), reqPath = path, reqBody = ib \<rparr> = Rejected e \<and>
    responseStatus e = Some st \<and>
    (st \<in> {400, 401, 403, 404, 409, 429} \<or> 500 \<le> st \<or> errorCode e \<notin> networkCodes)
    \<longrightarrow> raisedKind (request c env path im ib) = Some (statusTable st)) \<and>
   (isCloud c \<and>
    fst (getFileContent c env ws rs filePath commitHash) = [FetchCall url] \<and>
    fetchUrl env url = FetchResponse st body \<and>
    \<not> (200 \<le> st \<and> st \<le> 299)
    \<longrightarrow> raisedKind (getFileContent c env ws rs filePath commitHash) =
          Some (if st = 404 then (js ''FILE_NOT_FOUND'', False)
                else if st = 401 then (js ''AUTHENTICATION_ERROR'', False)
                else (js ''FILE_FETCH_ERROR'', 500 \<le> st)))"
proof (intro conjI impI)
  assume h: "axiosRequest env \<lparr> reqBaseURL = clientBaseUrl c,
        reqMethod = (case im of None \<Rightarrow> GET | Some x \<Rightarrow> x), reqPath = path, reqBody = ib \<rparr> = Rejected e \<and>
    responseStatus e = Some st \<and>
    (st \<in> {400, 401, 403, 404, 409, 429} \<or> 500 \<le> st \<or> errorCode e \<notin> networkCodes)"
  then have "snd (request c env path im ib) =
      Inl (BitbucketErr (requestError path (case im of None \<Rightarrow> GET | Some x \<Rightarrow> x) e))"
    by (simp add: snd_request)
  moreover have "(errorType (requestError path (case im of None \<Rightarrow> GET | Some x \<Rightarrow> x) e),
                  isRetryable (requestError path (case im of None \<Rightarrow> GET | Some x \<Rightarrow> x) e)) = statusTable st"
    using h by (intro requestError_table) simp_all
  ultimately show "raisedKind (request c env path im ib) = Some (statusTable st)"
    by (simp add: raisedKind_def)
next
  assume h: "isCloud c \<and>
    fst (getFileContent c env ws rs filePath commitHash) = [FetchCall url] \<and>
    fetchUrl env url = FetchResponse st body \<and>
    \<not> (200 \<le> st \<and> st \<le> 299)"
  then show "raisedKind (getFileContent c env ws rs filePath commitHash) =
          Some (if st = 404 then (js ''FILE_NOT_FOUND'', False)
                else if st = 401 then (js ''AUTHENTICATION_ERROR'', False)
                else (js ''FILE_FETCH_ERROR'', 500 \<le> st))"
    by (auto simp: getFileContent_def encoded_def Let_def raisedKind_def fileFetchError_def
          split: sum.splits)
qed

theorem error_kinds_by_route_witness:
  "raisedKind (request exampleServer (rejecting 404) (js ''/projects/ws/repos/repo'') None None) =
     Some (js ''NOT_FOUND_ERROR'', False) \<and>
   raisedKind (request exampleCloud (rejecting 429) (js ''/workspaces'') None None) =
     Some (js ''RATE_LIMIT_ERROR'', True) \<and>
   raisedKind (getFileContent exampleCloud (rejecting 429) (js ''ws'') (js ''repo'')
                 (js ''README.md'') (js ''main'')) =
     Some (js ''FILE_FETCH_ERROR'', False)"
proof -
  have f: "isCloud exampleCloud \<and>
      fst (getFileContent exampleCloud (rejecting 429) (js ''ws'') (js ''repo'') (js ''README.md'')
             (js ''main'')) =
        [FetchCall (js ''https://api.bitbucket.org/2.0/repositories/ws/repo/src/main/README.md'')] \<and>
      fetchUrl (rejecting 429)
        (js ''https://api.bitbucket.org/2.0/repositories/ws/repo/src/main/README.md'') =
        FetchResponse 429 (Some (js ''failed'')) \<and>
      \<not> (200 \<le> (429::nat) \<and> (429::nat) \<le> 299)"
    by (simp add: getFileContent_def Let_def rejecting_def exampleCloud_simps enc_eval)
  show ?thesis
    using error_kinds_by_route [where env = "rejecting 404" and c = exampleServer and im = None
          and path = "js ''/projects/ws/repos/repo''" and ib = None and st = 404
          and e = "\<lparr> responseStatus = Some 404, responseData = JNull,
                     errorCode = Some (js ''ERR_BAD_REQUEST''), errorMessage = js ''Request failed'' \<rparr>",
          THEN conjunct1]
        error_kinds_by_route [where env = "rejecting 429" and c = exampleCloud and im = None
          and path = "js ''/workspaces''" and ib = None and st = 429
          and e = "\<lparr> responseStatus = Some 429, responseData = JNull,
                     errorCode = Some (js ''ERR_BAD_REQUEST''), errorMessage = js ''Request failed'' \<rparr>",
          THEN conjunct1]
        error_kinds_by_route [THEN conjunct2, rule_format, OF f]
    by (simp add: rejecting_def statusTable_def exampleCloud_simps exampleServer_simps)
qed


subsection \<open>The session boundary\<close>

text \<open>
  Claim C9. The handler of an invoke-tool request is a total function into tool
  results: nothing is raised out of it. A name that no registered tool has yields the
  failure envelope \<open>Tool not found: \<close> followed by the name, and no handler runs; a
  handler that raises a \<open>BitbucketError\<close> yields a failure envelope with its message,
  kind, status, suggestion, retryability and details; a handler that raises another
  error yields a failure envelope with its message (its name when the message is empty);
  a handler that returns yields its result.
\<close>

theorem callTool_envelopes:
  "(find (\<lambda>t. toolName t = nm) tools = None \<longrightarrow>
      callTool tools env nm a =
        ([], \<lparr> content = [PlainText (js ''Tool not found: '' @ nm)], isError = True \<rparr>)) \<and>
   (find (\<lambda>t. toolName t = nm) tools = Some t \<and>
    snd (handler t env (orElse a (JObj []))) = Inl (BitbucketErr e) \<longrightarrow>
      snd (callTool tools env nm a) =
        \<lparr> content = [JsonText (JObj
             [(js ''error'', JStr (message e)),
              (js ''errorType'', JStr (errorType e)),
              (js ''statusCode'', (case statusCode e of None \<Rightarrow> JUndefined | Some n \<Rightarrow> JNum (int n))),
              (js ''suggestion'', (case suggestion e of None \<Rightarrow> JUndefined | Some s \<Rightarrow> JStr s)),
              (js ''isRetryable'', JBool (isRetryable e)),
              (js ''details'', details e)])],
          isError = True \<rparr>) \<and>
   (find (\<lambda>t. toolName t = nm) tools = Some t \<and>
    snd (handler t env (orElse a (JObj []))) = Inl (JsError n msg) \<longrightarrow>
      snd (callTool tools env nm a) =
        \<lparr> content = [PlainText (if msg \<noteq> [] then msg else n)], isError = True \<rparr>) \<and>
   (find (\<lambda>t. toolName t = nm) tools = Some t \<and>
    snd (handler t env (orElse a (JObj []))) = Inr res \<longrightarrow>
      snd (callTool tools env nm a) = res)"
  by (auto simp: callTool_def Let_def errorInfo_def errorText_def
        split: option.splits prod.splits sum.splits thrown.splits)

theorem callTool_envelopes_witness:
  "callTool [repo_info exampleCloud, pr_comment_add exampleCloud] quietRemote (js ''repo_delete'') JUndefined =
     ([], \<lparr> content = [PlainText (js ''Tool not found: repo_delete'')], isError = True \<rparr>) \<and>
   snd (callTool [repo_info exampleCloud, pr_comment_add exampleCloud] (rejecting 404) (js ''repo_info'')
          (JObj [(js ''workspace'', JStr (js ''ws'')), (js ''repoSlug'', JStr (js ''repo''))])) =
     \<lparr> content = [JsonText (JObj
          [(js ''error'', JStr (js ''Resource not found'')),
           (js ''errorType'', JStr (js ''NOT_FOUND_ERROR'')),
           (js ''statusCode'', JNum 404),
           (js ''suggestion'', JStr (js ''Verify workspace name, repository slug, or resource ID. Check if the resource exists and is accessible.'')),
           (js ''isRetryable'', JBool False),
           (js ''details'', JObj [(js ''path'', JStr (js ''/repositories/ws/repo'')), (js ''method'', JStr (js ''GET'')),
                               (js ''response'', JNull)])])],
       isError = True \<rparr> \<and>
   snd (callTool [repo_info exampleCloud, pr_comment_add exampleCloud] quietRemote (js ''repo_info'')
          (JObj [(js ''repoSlug'', JStr (js ''repo''))])) =
     \<lparr> content = [PlainText (js ''workspace parameter is required'')], isError = True \<rparr>"
proof -
  let ?tools = "[repo_info exampleCloud, pr_comment_add exampleCloud]"
  let ?e = "requestError (js ''/repositories/ws/repo'') GET
              \<lparr> responseStatus = Some 404, responseData = JNull,
                errorCode = Some (js ''ERR_BAD_REQUEST''), errorMessage = js ''Request failed'' \<rparr>"
  have f1: "find (\<lambda>t. toolName t = js ''repo_delete'') ?tools = None"
    by (simp add: repo_info_def pr_comment_add_def)
  have f2: "find (\<lambda>t. toolName t = js ''repo_info'') ?tools = Some (repo_info exampleCloud)"
    by (simp add: repo_info_def pr_comment_add_def)
  have h2: "snd (handler (repo_info exampleCloud) (rejecting 404)
                  (orElse (JObj [(js ''workspace'', JStr (js ''ws'')), (js ''repoSlug'', JStr (js ''repo''))]) (JObj []))) =
            Inl (BitbucketErr ?e)"
    by (simp add: repo_info_def repo_info_handler_def getDefaultWorkspace_def
          getDefaultRepoSlug_def optMember_def nullish_def orElse_def getRepo_def request_def
          rejecting_def exampleCloud_simps enc_eval Let_def)
  have h3: "snd (handler (repo_info exampleCloud) quietRemote
                  (orElse (JObj [(js ''repoSlug'', JStr (js ''repo''))]) (JObj []))) =
            Inl (JsError (js ''Error'') (js ''workspace parameter is required''))"
    by (simp add: repo_info_def repo_info_handler_def getDefaultWorkspace_def
          optMember_def nullish_def orElse_def Let_def)
  note w = callTool_envelopes [where tools = ?tools]
  from w [where nm = "js ''repo_delete''" and env = quietRemote and a = JUndefined, THEN conjunct1] f1
  have a1: "callTool ?tools quietRemote (js ''repo_delete'') JUndefined =
     ([], \<lparr> content = [PlainText (js ''Tool not found: repo_delete'')], isError = True \<rparr>)"
    by simp
  from w [where nm = "js ''repo_info''" and env = "rejecting 404" and t = "repo_info exampleCloud"
            and e = ?e and a = "JObj [(js ''workspace'', JStr (js ''ws'')), (js ''repoSlug'', JStr (js ''repo''))]",
          THEN conjunct2, THEN conjunct1] f2 h2
  have a2: "snd (callTool ?tools (rejecting 404) (js ''repo_info'')
          (JObj [(js ''workspace'', JStr (js ''ws'')), (js ''repoSlug'', JStr (js ''repo''))])) =
     \<lparr> content = [JsonText (JObj
          [(js ''error'', JStr (message ?e)),
           (js ''errorType'', JStr (errorType ?e)),
           (js ''statusCode'', (case statusCode ?e of None \<Rightarrow> JUndefined | Some n \<Rightarrow> JNum (int n))),
           (js ''suggestion'', (case suggestion ?e of None \<Rightarrow> JUndefined | Some s \<Rightarrow> JStr s)),
           (js ''isRetryable'', JBool (isRetryable ?e)),
           (js ''details'', details ?e)])],
       isError = True \<rparr>"
    by simp
  from w [where nm = "js ''repo_info''" and env = quietRemote and t = "repo_info exampleCloud"
            and n = "js ''Error''" and msg = "js ''workspace parameter is required''"
            and a = "JObj [(js ''repoSlug'', JStr (js ''repo''))]",
          THEN conjunct2, THEN conjunct2, THEN conjunct1] f2 h3
  have a3: "snd (callTool ?tools quietRemote (js ''repo_info'') (JObj [(js ''repoSlug'', JStr (js ''repo''))])) =
     \<lparr> content = [PlainText (js ''workspace parameter is required'')], isError = True \<rparr>"
    by simp
  show ?thesis
    using a1 a2 a3 by (simp add: requestError_def errorDetails_def Let_def)
qed


subsection \<open>File content on Server\<close>

lemma lineTexts_objects:
  "list_all2 (\<lambda>l t. \<not> nullish l \<and> member l (js ''text'') = JStr t) ls ts \<Longrightarrow>
   lineTexts ls = Inr (map JStr ts)"
  by (induction ls ts rule: list_all2_induct) simp_all

lemma joinElem_JStr: "map (joinElem \<circ> JStr) ts = ts"
  by (induction ts) (simp_all add: joinElem_def nullish_def)

lemma serverFileContent_no_lines:
  "\<not> nullish response \<Longrightarrow> member response (js ''lines'') \<in> {JUndefined, JNull, JArr []} \<Longrightarrow>
   serverFileContent response = Inr []"
  by (auto simp: serverFileContent_def Let_def nullish_def)

lemma serverFileContent_lines:
  assumes "\<not> nullish response" and "member response (js ''lines'') = JArr ls"
      and "list_all2 (\<lambda>l t. \<not> nullish l \<and> member l (js ''text'') = JStr t) ls ts"
  shows "serverFileContent response = Inr (joinWith [cu CHR 0x0A] ts)"
  using assms lineTexts_objects [OF assms(3)]
  by (simp add: serverFileContent_def Let_def nullish_def joinElem_JStr)

text \<open>
  Claim C10, as stated, fails for a response without a \<open>lines\<close> array on which the
  expression raises: a \<open>null\<close> response (reading \<open>lines\<close> of it raises a TypeError),
  and a \<open>lines\<close> member that is neither \<open>null\<close> nor an array (it has no \<open>map\<close>).
\<close>

theorem server_file_content_counterexample:
  "getFileContent exampleServer (answering JNull) (js ''ws'') (js ''repo'') (js ''f.txt'') (js ''main'') =
     ([AxiosCall \<lparr> reqBaseURL = js ''https://git.example.com/rest/api/1.0'', reqMethod = GET,
         reqPath = js ''/projects/ws/repos/repo/browse/f.txt?at=main'', reqBody = None \<rparr>],
      Inl (JsError (js ''TypeError'')
             (js ''Cannot read properties of null (reading '' @ [cu CHR 0x27] @ js ''lines'' @
              [cu CHR 0x27] @ js '')''))) \<and>
   snd (getFileContent exampleServer (answering (JObj [(js ''lines'', JStr (js ''one line''))]))
          (js ''ws'') (js ''repo'') (js ''f.txt'') (js ''main'')) =
     Inl (JsError (js ''TypeError'') (js ''response.lines?.map is not a function''))"
  by (simp add: getFileContent_def request_def answering_def exampleServer_simps enc_eval
        serverFileContent_def nullish_def Let_def)

text \<open>
  Claim C10, amended. On the Server dialect \<open>getFileContent\<close> returns the empty string
  whenever the response is not \<open>null\<close> and its \<open>lines\<close> member is absent, \<open>null\<close> or an
  empty array; when \<open>lines\<close> is an array of objects with string \<open>text\<close> members it
  returns the \<open>text\<close> of each line joined with a single newline.
\<close>

theorem server_file_content:
  assumes "\<not> isCloud c"
      and "fst (getFileContent c env ws rs filePath commitHash) = [AxiosCall req]"
      and "axiosRequest env req = Resolved response"
      and "\<not> nullish response"
  shows "(member response (js ''lines'') \<in> {JUndefined, JNull, JArr []} \<longrightarrow>
            snd (getFileContent c env ws rs filePath commitHash) = Inr []) \<and>
         (member response (js ''lines'') = JArr ls \<and>
          list_all2 (\<lambda>l t. \<not> nullish l \<and> member l (js ''text'') = JStr t) ls ts \<longrightarrow>
            snd (getFileContent c env ws rs filePath commitHash) =
              Inr (joinWith [cu (CHR 0x0A)] ts))"
proof -
  have g: "snd (getFileContent c env ws rs filePath commitHash) = serverFileContent response"
    using assms(1,2,3)
    by (auto simp: getFileContent_def encoded_def request_def Let_def split: sum.splits)
  show ?thesis
    using assms(4) by (auto simp: g serverFileContent_no_lines serverFileContent_lines)
qed

theorem server_file_content_witness:
  "snd (getFileContent exampleServer (answering (JObj [(js ''path'', JStr (js ''src''))]))
          (js ''ws'') (js ''repo'') (js ''src'') (js ''main'')) = Inr [] \<and>
   snd (getFileContent exampleServer
          (answering (JObj [(js ''lines'', JArr [JObj [(js ''text'', JStr (js ''a''))],
                                              JObj [(js ''text'', JStr [])],
                                              JObj [(js ''text'', JStr (js ''b''))]])]))
          (js ''ws'') (js ''repo'') (js ''f.txt'') (js ''main'')) =
     Inr [cu CHR ''a'', cu (CHR 0x0A), cu (CHR 0x0A), cu CHR ''b'']"
proof -
  have s: "\<not> isCloud exampleServer" by (simp add: exampleServer_simps)
  have n1: "\<not> nullish (JObj [(js ''path'', JStr (js ''src''))])" by (simp add: nullish_def)
  let ?r = "JObj [(js ''lines'', JArr [JObj [(js ''text'', JStr (js ''a''))],
                                              JObj [(js ''text'', JStr [])],
                                              JObj [(js ''text'', JStr (js ''b''))]])]"
  have n2: "\<not> nullish ?r" by (simp add: nullish_def)
  have l2: "list_all2 (\<lambda>l t. \<not> nullish l \<and> member l (js ''text'') = JStr t)
              [JObj [(js ''text'', JStr (js ''a''))], JObj [(js ''text'', JStr [])],
               JObj [(js ''text'', JStr (js ''b''))]]
              [js ''a'', [], js ''b'']"
    by (simp add: nullish_def)
  have c1: "fst (getFileContent exampleServer (answering (JObj [(js ''path'', JStr (js ''src''))]))
                  (js ''ws'') (js ''repo'') (js ''src'') (js ''main'')) =
            [AxiosCall \<lparr> reqBaseURL = js ''https://git.example.com/rest/api/1.0'',
               reqMethod = GET, reqPath = js ''/projects/ws/repos/repo/browse/src?at=main'',
               reqBody = None \<rparr>]"
    by (simp add: getFileContent_def request_def answering_def exampleServer_simps enc_eval)
  have c2: "fst (getFileContent exampleServer (answering ?r)
                  (js ''ws'') (js ''repo'') (js ''f.txt'') (js ''main'')) =
            [AxiosCall \<lparr> reqBaseURL = js ''https://git.example.com/rest/api/1.0'',
               reqMethod = GET, reqPath = js ''/projects/ws/repos/repo/browse/f.txt?at=main'',
               reqBody = None \<rparr>]"
    by (simp add: getFileContent_def request_def answering_def exampleServer_simps enc_eval)
  from server_file_content [OF s c1 _ n1, THEN conjunct1]
  have a1: "snd (getFileContent exampleServer (answering (JObj [(js ''path'', JStr (js ''src''))]))
          (js ''ws'') (js ''repo'') (js ''src'') (js ''main'')) = Inr []"
    by (simp add: answering_def)
  from server_file_content [OF s c2 _ n2, where
         ls = "[JObj [(js ''text'', JStr (js ''a''))], JObj [(js ''text'', JStr [])],
                JObj [(js ''text'', JStr (js ''b''))]]"
         and ts = "[js ''a'', [], js ''b'']",
         THEN conjunct2] l2
  have a2: "snd (getFileContent exampleServer (answering ?r) (js ''ws'') (js ''repo'')
                   (js ''f.txt'') (js ''main'')) =
            Inr (joinWith [cu (CHR 0x0A)] [js ''a'', [], js ''b''])"
    by (simp add: answering_def)
  show ?thesis using a1 a2 by simp
qed


subsection \<open>Configuration precedence\<close>

text \<open>
  Claim C2 does not hold of the code. With a \<open>.env\<close> file, both credentials in the
  environment and a configuration file with \<open>bitbucket.environments\<close>, \<open>loadConfig\<close>
  returns the values of the file: the loop over the configuration files returns before
  the result of the environment branch is looked at.
\<close>

theorem loadConfig_file_over_env:
  "envFile bothSources \<and>
   credentials bothSources = Some (js ''env@example.com'', js ''envtoken'') \<and>
   loadConfig bothSources =
     Inr \<lparr> baseUrl = JStr (js ''https://git.example.com/rest/api/1.0''),
           ATLASSIAN_USER_EMAIL = JStr (js ''file@example.com''),
           ATLASSIAN_API_TOKEN = JStr (js ''filetoken''),
           authType = Bearer,
           defaultDestinationBranch = JStr (js ''main'') \<rparr>"
  by (simp add: loadConfig_def configPaths_def bothSources_def fileEnvironments_def
        credentials_def cloudMarker_def orElse_def)








subsection \<open>Argument validation\<close>

text \<open>
  Claim C5 does not hold of the code. The input schema of \<open>pr_comment_add\<close> requires
  \<open>prId\<close> and \<open>text\<close>, but its handler checks the workspace and the slug only. Without
  \<open>prId\<close> the comment is posted to the pull request \<open>undefined\<close> and the tool reports
  success.
\<close>

theorem pr_comment_add_without_prId:
  "js ''prId'' \<in> set (requiredArgs (pr_comment_add exampleCloud)) \<and>
   callTool [repo_info exampleCloud, pr_comment_add exampleCloud] quietRemote (js ''pr_comment_add'')
     (JObj [(js ''workspace'', JStr (js ''ws'')), (js ''repoSlug'', JStr (js ''repo'')), (js ''text'', JStr (js ''LGTM''))]) =
     ([AxiosCall \<lparr> reqBaseURL = js ''https://api.bitbucket.org/2.0'', reqMethod = POST,
         reqPath = js ''/repositories/ws/repo/pullrequests/undefined/comments'',
         reqBody = Some (JObj [(js ''content'', JObj [(js ''raw'', JStr (js ''LGTM''))])]) \<rparr>],
      \<lparr> content = [JsonText JNull], isError = False \<rparr>)"
  by (simp add: callTool_def repo_info_def pr_comment_add_def pr_comment_add_handler_def
        getDefaultWorkspace_def getDefaultRepoSlug_def optMember_def nullish_def orElse_def
        addPullRequestComment_def request_def quietRemote_def exampleCloud_simps enc_eval
        jsonOut_def Let_def)

text \<open>
  Without \<open>text\<close> no request is issued, but not by validation: the log line of the
  client reads \<open>text.length\<close> and raises a TypeError, whose message the session reports.
\<close>

lemma pr_comment_add_without_text:
  "callTool [repo_info exampleCloud, pr_comment_add exampleCloud] quietRemote (js ''pr_comment_add'')
     (JObj [(js ''workspace'', JStr (js ''ws'')), (js ''repoSlug'', JStr (js ''repo'')), (js ''prId'', JNum 7)]) =
     ([], \<lparr> content = [PlainText (js ''Cannot read properties of undefined (reading '' @ [cu CHR 0x27] @
                          js ''length'' @ [cu CHR 0x27] @ js '')'')], isError = True \<rparr>)"
  by (simp add: callTool_def repo_info_def pr_comment_add_def pr_comment_add_handler_def
        getDefaultWorkspace_def getDefaultRepoSlug_def optMember_def nullish_def orElse_def
        addPullRequestComment_def errorText_def Let_def)


subsection \<open>Remote URL parsing\<close>

lemma ciEq_refl [simp]: "ciEq c c"
  by (simp add: ciEq_def)







































end
